theory Spec2Isabelle
  imports Complex_Main
begin

section \<open>Python values used by the coordinate fuzzer\<close>

text \<open>
  The program is \<^verbatim>\<open>src/main.py\<close>. A Python \<^verbatim>\<open>float\<close> is modelled as a real number or one of
  the three special values. The rounding of doubles is not modelled: arithmetic on finite
  values is exact, a decimal string denotes its exact value (it neither rounds to the
  nearest double nor overflows to infinity), and an \<^verbatim>\<open>int\<close> converts to a float whatever
  its size. Signed zeros are identified. A Python \<^verbatim>\<open>str\<close> is a \<open>string\<close> whose characters
  are the code points below 256.
\<close>

datatype pyfloat = Fin real | PInf | NInf | NaN

datatype pynum = PyInt int | PyFloat pyfloat

datatype pyval = PyStr string | PyNum pynum

text \<open>Float addition and multiplication with the IEEE rules for the special values.\<close>

fun fadd :: "pyfloat \<Rightarrow> pyfloat \<Rightarrow> pyfloat" where
  "fadd (Fin a) (Fin b) = Fin (a + b)"
| "fadd NaN _ = NaN"
| "fadd _ NaN = NaN"
| "fadd PInf NInf = NaN"
| "fadd NInf PInf = NaN"
| "fadd PInf _ = PInf"
| "fadd _ PInf = PInf"
| "fadd NInf _ = NInf"
| "fadd _ NInf = NInf"

definition inf_of_sign :: "real \<Rightarrow> pyfloat" where
  "inf_of_sign x = (if 0 < x then PInf else if x < 0 then NInf else NaN)"

fun fneg :: "pyfloat \<Rightarrow> pyfloat" where
  "fneg (Fin a) = Fin (- a)"
| "fneg PInf = NInf"
| "fneg NInf = PInf"
| "fneg NaN = NaN"

fun fmul :: "pyfloat \<Rightarrow> pyfloat \<Rightarrow> pyfloat" where
  "fmul (Fin a) (Fin b) = Fin (a * b)"
| "fmul NaN _ = NaN"
| "fmul _ NaN = NaN"
| "fmul PInf (Fin b) = inf_of_sign b"
| "fmul (Fin a) PInf = inf_of_sign a"
| "fmul NInf (Fin b) = inf_of_sign (- b)"
| "fmul (Fin a) NInf = inf_of_sign (- a)"
| "fmul PInf PInf = PInf"
| "fmul NInf NInf = PInf"
| "fmul PInf NInf = NInf"
| "fmul NInf PInf = NInf"

text \<open>Comparisons: every comparison with NaN is false.\<close>

fun flt :: "pyfloat \<Rightarrow> pyfloat \<Rightarrow> bool" where
  "flt (Fin a) (Fin b) = (a < b)"
| "flt NaN _ = False"
| "flt _ NaN = False"
| "flt NInf NInf = False"
| "flt NInf _ = True"
| "flt _ NInf = False"
| "flt PInf _ = False"
| "flt _ PInf = True"

fun fle :: "pyfloat \<Rightarrow> pyfloat \<Rightarrow> bool" where
  "fle (Fin a) (Fin b) = (a \<le> b)"
| "fle NaN _ = False"
| "fle _ NaN = False"
| "fle NInf _ = True"
| "fle _ PInf = True"
| "fle PInf _ = False"
| "fle _ NInf = False"

text \<open>Mixed \<^verbatim>\<open>int\<close>/\<^verbatim>\<open>float\<close> comparison is by value.\<close>

fun to_float :: "pynum \<Rightarrow> pyfloat" where
  "to_float (PyInt i) = Fin (of_int i)"
| "to_float (PyFloat f) = f"

definition num_lt :: "pynum \<Rightarrow> pynum \<Rightarrow> bool" where
  "num_lt a b = flt (to_float a) (to_float b)"

definition num_le :: "pynum \<Rightarrow> pynum \<Rightarrow> bool" where
  "num_le a b = fle (to_float a) (to_float b)"

text \<open>
  The builtins \<^verbatim>\<open>min(a, b)\<close> and \<^verbatim>\<open>max(a, b)\<close> keep the first argument unless the second
  is strictly smaller (greater); the returned object is the argument itself, so the
  result of a clamp may be the \<^verbatim>\<open>int\<close> bound.
\<close>

definition py_min :: "pynum \<Rightarrow> pynum \<Rightarrow> pynum" where
  "py_min a b = (if num_lt b a then b else a)"

definition py_max :: "pynum \<Rightarrow> pynum \<Rightarrow> pynum" where
  "py_max a b = (if num_lt a b then b else a)"

section \<open>The builtin float() on strings\<close>

text \<open>
  \<^verbatim>\<open>float(s)\<close> strips whitespace, then accepts an optional sign followed by
  \<^verbatim>\<open>inf\<close>, \<^verbatim>\<open>infinity\<close>, \<^verbatim>\<open>nan\<close> (in any case) or a decimal number with optional
  fraction and exponent, where single underscores may separate digits. Anything else
  raises \<^verbatim>\<open>ValueError\<close>, modelled as \<open>None\<close>.
\<close>

definition code_point :: "char \<Rightarrow> nat" where
  "code_point c = of_char c"

definition is_space :: "char \<Rightarrow> bool" where
  "is_space c = (let n = code_point c in
     (9 \<le> n \<and> n \<le> 13) \<or> (28 \<le> n \<and> n \<le> 32) \<or> n = 133 \<or> n = 160)"

definition py_strip :: "string \<Rightarrow> string" where
  "py_strip s = rev (dropWhile is_space (rev (dropWhile is_space s)))"

text \<open>
  \<^verbatim>\<open>float\<close> strips fewer characters than \<^verbatim>\<open>str.strip\<close>: the separators with code points 28
  to 31 stay, and make the string unparsable.
\<close>

definition is_float_space :: "char \<Rightarrow> bool" where
  "is_float_space c = (let n = code_point c in
     (9 \<le> n \<and> n \<le> 13) \<or> n = 32 \<or> n = 133 \<or> n = 160)"

definition float_strip :: "string \<Rightarrow> string" where
  "float_strip s = rev (dropWhile is_float_space (rev (dropWhile is_float_space s)))"

definition is_digit :: "char \<Rightarrow> bool" where
  "is_digit c = (48 \<le> code_point c \<and> code_point c \<le> 57)"

definition digit_val :: "char \<Rightarrow> nat" where
  "digit_val c = code_point c - 48"

text \<open>The code point of the lower-case form of an ASCII letter.\<close>

definition lower_code :: "char \<Rightarrow> nat" where
  "lower_code c = (if 65 \<le> code_point c \<and> code_point c \<le> 90 then code_point c + 32
                   else code_point c)"

fun digitpart :: "string \<Rightarrow> bool" where
  "digitpart [] = False"
| "digitpart [c] = is_digit c"
| "digitpart (c # d # cs) =
     (is_digit c \<and> (if d = CHR ''_'' then digitpart cs else digitpart (d # cs)))"

definition digits_val :: "string \<Rightarrow> nat" where
  "digits_val s = foldl (\<lambda>a c. 10 * a + digit_val c) 0 (filter (\<lambda>c. c \<noteq> CHR ''_'') s)"

definition digit_count :: "string \<Rightarrow> nat" where
  "digit_count s = length (filter (\<lambda>c. c \<noteq> CHR ''_'') s)"

definition take_sign :: "string \<Rightarrow> bool \<times> string" where
  "take_sign s = (case s of
       c # r \<Rightarrow> (if c = CHR ''-'' then (True, r) else if c = CHR ''+'' then (False, r) else (False, s))
     | [] \<Rightarrow> (False, s))"

definition special_float :: "string \<Rightarrow> pyfloat option" where
  "special_float s = (let t = map lower_code s in
     if t = map code_point ''inf'' \<or> t = map code_point ''infinity'' then Some PInf
     else if t = map code_point ''nan'' then Some NaN else None)"

definition is_exp_mark :: "char \<Rightarrow> bool" where
  "is_exp_mark c = (c = CHR ''e'' \<or> c = CHR ''E'')"

definition exponent_val :: "string \<Rightarrow> int option" where
  "exponent_val s = (case s of
       [] \<Rightarrow> Some 0
     | _ # r \<Rightarrow> (let (neg, d) = take_sign r in
         if digitpart d then Some (if neg then - int (digits_val d) else int (digits_val d))
         else None))"

definition mantissa_val :: "string \<Rightarrow> real option" where
  "mantissa_val m = (let ip = takeWhile (\<lambda>c. c \<noteq> CHR ''.'') m;
                        rest = dropWhile (\<lambda>c. c \<noteq> CHR ''.'') m in
     if rest = [] then (if digitpart ip then Some (real (digits_val ip)) else None)
     else (let fp = tl rest in
       if (digitpart ip \<and> (fp = [] \<or> digitpart fp)) \<or> (ip = [] \<and> digitpart fp)
       then Some (real (digits_val ip) + real (digits_val fp) / 10 ^ digit_count fp)
       else None))"

definition float_number :: "string \<Rightarrow> real option" where
  "float_number s = (let m = takeWhile (\<lambda>c. \<not> is_exp_mark c) s;
                         e = dropWhile (\<lambda>c. \<not> is_exp_mark c) s in
     case mantissa_val m of
       None \<Rightarrow> None
     | Some x \<Rightarrow> (case exponent_val e of
           None \<Rightarrow> None
         | Some k \<Rightarrow> Some (if k < 0 then x / 10 ^ nat (- k) else x * 10 ^ nat k)))"

definition py_float_str :: "string \<Rightarrow> pyfloat option" where
  "py_float_str s = (let (neg, body) = take_sign (float_strip s) in
     case special_float body of
       Some v \<Rightarrow> Some (if neg then fneg v else v)
     | None \<Rightarrow> (case float_number body of
           None \<Rightarrow> None
         | Some x \<Rightarrow> Some (Fin (if neg then - x else x))))"

text \<open>\<^verbatim>\<open>float(x)\<close> for the values the fuzzer is called with.\<close>

fun py_float :: "pyval \<Rightarrow> pyfloat option" where
  "py_float (PyStr s) = py_float_str s"
| "py_float (PyNum n) = Some (to_float n)"

section \<open>fuzz\_coordinate\<close>

text \<open>
  The four \<^verbatim>\<open>ValueError\<close>s of \<^verbatim>\<open>fuzz_coordinate\<close>, told apart by their message.
\<close>

datatype fuzz_error = NotNumeric | LatitudeRange | LongitudeRange | RadiusNotPositive

text \<open>
  Lines 58 to 63: the point before clamping. \<open>u1\<close> and \<open>u2\<close> are the values of the
  two calls of \<^verbatim>\<open>random.random()\<close>, in this order; each lies in \<open>[0, 1)\<close>. The program
  rounds each of these operations to a double; here they are exact, so a finite result
  is the program's up to rounding. What is proved of \<open>fuzz_coordinate\<close> below holds for
  any value of this point.
\<close>

definition pre_clamp :: "real \<Rightarrow> real \<Rightarrow> pyfloat \<Rightarrow> pyfloat \<Rightarrow> pynum \<Rightarrow> pyfloat \<times> pyfloat" where
  "pre_clamp u1 u2 latitude longitude radius =
     (let angle = 2 * pi * u1;
          distance = fmul (to_float radius) (Fin (sqrt u2));
          new_latitude = fadd latitude (fmul distance (Fin (sin angle)));
          new_longitude = fadd longitude (fmul distance (Fin (cos angle)))
      in (new_latitude, new_longitude))"

definition fuzz_coordinate ::
  "real \<Rightarrow> real \<Rightarrow> pyval \<Rightarrow> pyval \<Rightarrow> pynum \<Rightarrow> fuzz_error + (pynum \<times> pynum)" where
  "fuzz_coordinate u1 u2 latitude longitude radius =
     (case py_float latitude of
        None \<Rightarrow> Inl NotNumeric
      | Some lat \<Rightarrow>
     (case py_float longitude of
        None \<Rightarrow> Inl NotNumeric
      | Some lon \<Rightarrow>
        if \<not> (num_le (PyInt (- 90)) (PyFloat lat) \<and> num_le (PyFloat lat) (PyInt 90))
        then Inl LatitudeRange
        else if \<not> (num_le (PyInt (- 180)) (PyFloat lon) \<and> num_le (PyFloat lon) (PyInt 180))
        then Inl LongitudeRange
        else if num_le radius (PyInt 0) then Inl RadiusNotPositive
        else (let (new_latitude, new_longitude) = pre_clamp u1 u2 lat lon radius;
                  new_latitude = py_max (PyInt (- 90)) (py_min (PyInt 90) (PyFloat new_latitude));
                  new_longitude = py_max (PyInt (- 180)) (py_min (PyInt 180) (PyFloat new_longitude))
              in Inr (new_latitude, new_longitude))))"

section \<open>Strings and lists of the line transformer\<close>

text \<open>
  \<^verbatim>\<open>line.split(delimiter)\<close> cuts at the non-overlapping occurrences of the delimiter, from
  the left; an empty delimiter raises \<^verbatim>\<open>ValueError\<close> (\<open>None\<close>). \<open>cur\<close> holds the
  characters of the field being read, in reverse.
\<close>

function split_from :: "string \<Rightarrow> string \<Rightarrow> string \<Rightarrow> string list" where
  "split_from sep cur [] = [rev cur]"
| "split_from sep cur (c # cs) =
     (if sep \<noteq> [] \<and> take (length sep) (c # cs) = sep
      then rev cur # split_from sep [] (drop (length sep) (c # cs))
      else split_from sep (c # cur) cs)"
  by pat_completeness auto
termination
  by (relation "measure (\<lambda>(sep, cur, s). length s)") auto

definition py_split :: "string \<Rightarrow> string \<Rightarrow> string list option" where
  "py_split s sep = (if sep = [] then None else Some (split_from sep [] s))"

fun py_join :: "string \<Rightarrow> string list \<Rightarrow> string" where
  "py_join sep [] = []"
| "py_join sep [x] = x"
| "py_join sep (x # y # ys) = x @ sep @ py_join sep (y # ys)"

text \<open>
  The position that the index \<open>i\<close> denotes in a list of length \<open>n\<close>: negative indices
  count from the end, and an index outside \<open>[-n, n)\<close> raises \<^verbatim>\<open>IndexError\<close> (\<open>None\<close>).
\<close>

definition py_pos :: "nat \<Rightarrow> int \<Rightarrow> nat option" where
  "py_pos n i = (if 0 \<le> i \<and> i < int n then Some (nat i)
                 else if i < 0 \<and> - int n \<le> i then Some (nat (int n + i))
                 else None)"

text \<open>
  The lines that iterating over the decoded text yields (its line endings already
  translated to the newline character): each line keeps its newline, and a last line
  without one is yielded as it is.
\<close>

fun lines_from :: "string \<Rightarrow> string \<Rightarrow> string list" where
  "lines_from cur [] = (if cur = [] then [] else [rev cur])"
| "lines_from cur (c # cs) =
     (if c = CHR 0x0A then rev (c # cur) # lines_from [] cs else lines_from (c # cur) cs)"

definition file_lines :: "string \<Rightarrow> string list" where
  "file_lines text = lines_from [] text"

section \<open>process\_file and main\<close>

text \<open>
  The run configuration holds the arguments of \<^verbatim>\<open>process_file\<close> that the loop reads. Opening
  the files and detecting the encoding are not modelled: the input is the list of lines
  that the opened file yields, and the output is the list of strings written to the
  output file, which starts empty.
\<close>

record config =
  radius :: pynum
  lat_col :: int
  lon_col :: int
  delimiter :: string
  header :: bool

datatype value_error = EmptySeparator | FuzzError fuzz_error

datatype py_exception = StopIteration | IndexError

text \<open>
  The log records: the warning of line 113, the error that \<^verbatim>\<open>fuzz_coordinate\<close> logs on
  line 45 before raising, the error of line 127, the error of line 137, and the two
  records of \<^verbatim>\<open>main\<close>.
\<close>

datatype diag =
    NotEnoughColumns nat nat
  | InvalidCoordinate pyval pyval
  | LineError nat value_error
  | Unexpected py_exception
  | MainError py_exception
  | Success

record run_state =
  written :: "string list"
  log :: "diag list"
  draws :: nat

text \<open>
  The record of line 45. When the conversion of the latitude has succeeded and that of the
  longitude fails, \<^verbatim>\<open>latitude\<close> is already bound to the float.
\<close>

definition invalid_coordinate :: "pyval \<Rightarrow> pyval \<Rightarrow> diag" where
  "invalid_coordinate latitude longitude =
     InvalidCoordinate
       (case py_float latitude of None \<Rightarrow> latitude | Some lat \<Rightarrow> PyNum (PyFloat lat))
       longitude"

text \<open>
  The body of the loop, lines 106 to 128, for the line \<open>raw\<close> numbered \<open>line_number\<close>.
  \<open>str_of\<close> is the builtin \<^verbatim>\<open>str\<close> on numbers; \<open>rnd k\<close> is the value of the \<open>k\<close>-th
  call of \<^verbatim>\<open>random.random()\<close> of the run, and \<open>draws\<close> counts the calls made so far
  (\<^verbatim>\<open>fuzz_coordinate\<close> draws only after its checks have passed). The result is the
  exception that leaves the loop, if any, and the state.
\<close>

definition newline :: string where
  "newline = [CHR 0x0A]"

definition process_line ::
  "config \<Rightarrow> (pynum \<Rightarrow> string) \<Rightarrow> (nat \<Rightarrow> real) \<Rightarrow> nat \<Rightarrow> string \<Rightarrow> run_state
     \<Rightarrow> py_exception option \<times> run_state" where
  "process_line cfg str_of rnd line_number raw st =
     (let line = py_strip raw in
      if line = [] then (None, st)
      else (case py_split line (delimiter cfg) of
          None \<Rightarrow>
            (None, st\<lparr>written := written st @ [line @ newline],
                      log := log st @ [LineError line_number EmptySeparator]\<rparr>)
        | Some parts \<Rightarrow>
            if int (length parts) \<le> max (lat_col cfg) (lon_col cfg)
            then (None, st\<lparr>written := written st @ [line @ newline],
                           log := log st @ [NotEnoughColumns line_number (length parts)]\<rparr>)
            else (case py_pos (length parts) (lat_col cfg) of
                None \<Rightarrow> (Some IndexError, st)
              | Some i \<Rightarrow>
            (case py_pos (length parts) (lon_col cfg) of
                None \<Rightarrow> (Some IndexError, st)
              | Some j \<Rightarrow>
            (case fuzz_coordinate (rnd (draws st)) (rnd (draws st + 1))
                    (PyStr (parts ! i)) (PyStr (parts ! j)) (radius cfg) of
                Inl e \<Rightarrow>
                  (None, st\<lparr>written := written st @ [line @ newline],
                            log := log st
                              @ (if e = NotNumeric
                                 then [invalid_coordinate (PyStr (parts ! i)) (PyStr (parts ! j))]
                                 else [])
                              @ [LineError line_number (FuzzError e)]\<rparr>)
              | Inr (new_latitude, new_longitude) \<Rightarrow>
                  (None, st\<lparr>written := written st
                              @ [py_join (delimiter cfg)
                                   ((parts[i := str_of new_latitude])[j := str_of new_longitude])
                                 @ newline],
                            draws := draws st + 2\<rparr>))))))"

text \<open>The loop of line 105 over the numbered lines.\<close>

fun process_lines ::
  "config \<Rightarrow> (pynum \<Rightarrow> string) \<Rightarrow> (nat \<Rightarrow> real) \<Rightarrow> (nat \<times> string) list \<Rightarrow> run_state
     \<Rightarrow> py_exception option \<times> run_state" where
  "process_lines cfg str_of rnd [] st = (None, st)"
| "process_lines cfg str_of rnd ((n, raw) # rest) st =
     (case process_line cfg str_of rnd n raw st of
        (Some e, st') \<Rightarrow> (Some e, st')
      | (None, st') \<Rightarrow> process_lines cfg str_of rnd rest st')"

definition initial_state :: run_state where
  "initial_state = \<lparr>written = [], log = [], draws = 0\<rparr>"

text \<open>
  \<^verbatim>\<open>process_file\<close> from line 99 on: \<^verbatim>\<open>next(infile)\<close> raises \<^verbatim>\<open>StopIteration\<close> on an empty
  file; the handler of line 136 logs whatever leaves the loop and raises it again.
\<close>

definition process_file ::
  "config \<Rightarrow> (pynum \<Rightarrow> string) \<Rightarrow> (nat \<Rightarrow> real) \<Rightarrow> string list
     \<Rightarrow> py_exception option \<times> run_state" where
  "process_file cfg str_of rnd infile =
     (case (if header cfg
            then (case infile of
                    [] \<Rightarrow> (Some StopIteration, initial_state)
                  | _ # rest \<Rightarrow> process_lines cfg str_of rnd (enumerate 1 rest) initial_state)
            else process_lines cfg str_of rnd (enumerate 1 infile) initial_state) of
        (Some e, st) \<Rightarrow> (Some e, st\<lparr>log := log st @ [Unexpected e]\<rparr>)
      | (None, st) \<Rightarrow> (None, st))"

text \<open>\<^verbatim>\<open>main\<close> after the arguments are parsed: the exit status and the final state.\<close>

definition main :: "config \<Rightarrow> (pynum \<Rightarrow> string) \<Rightarrow> (nat \<Rightarrow> real) \<Rightarrow> string list \<Rightarrow> nat \<times> run_state" where
  "main cfg str_of rnd infile =
     (case process_file cfg str_of rnd infile of
        (None, st) \<Rightarrow> (0, st\<lparr>log := log st @ [Success]\<rparr>)
      | (Some e, st) \<Rightarrow> (1, st\<lparr>log := log st @ [MainError e]\<rparr>))"

section \<open>Configurations and renderings used in the example runs\<close>

text \<open>The defaults of the command line, lines 20 to 24.\<close>

definition default_config :: config where
  "default_config = \<lparr>radius = PyFloat (Fin (1 / 100)), lat_col = 0, lon_col = 1,
                      delimiter = '','', header = False\<rparr>"

text \<open>A run with the coordinates in the second and third column and radius \<open>1\<close>.\<close>

definition columns_1_2 :: config where
  "columns_1_2 = default_config\<lparr>radius := PyInt 1, lat_col := 1, lon_col := 2\<rparr>"

text \<open>
  A stand-in for \<^verbatim>\<open>str\<close> in the example runs, which tells the two results of the run apart.
\<close>

definition show_coordinate :: "pynum \<Rightarrow> string" where
  "show_coordinate v = (if v = PyFloat (Fin 1) then ''LAT'' else ''LON'')"

section \<open>Notions of the specification\<close>

text \<open>
  The specification's reading of step 2a, "strip trailing line-ending": only the line
  terminator is removed. It is compared with what the code does (\<open>py_strip\<close>).
\<close>

definition spec_strip_line_ending :: "string \<Rightarrow> string" where
  "spec_strip_line_ending s = rev (dropWhile (\<lambda>c. c = CHR 0x0A \<or> c = CHR 0x0D) (rev s))"

definition is_finite :: "pyfloat \<Rightarrow> bool" where
  "is_finite x = (case x of Fin _ \<Rightarrow> True | _ \<Rightarrow> False)"

section \<open>Evaluation and helper lemmas\<close>

lemmas float_parse_defs =
  py_float_str_def float_strip_def is_float_space_def code_point_def take_sign_def special_float_def
  lower_code_def float_number_def is_exp_mark_def mantissa_val_def exponent_val_def
  is_digit_def digits_val_def digit_val_def digit_count_def

lemma clamp_bounds:
  assumes "lo \<le> hi"
  shows "num_le (PyInt lo) (py_max (PyInt lo) (py_min (PyInt hi) (PyFloat x)))
       \<and> num_le (py_max (PyInt lo) (py_min (PyInt hi) (PyFloat x))) (PyInt hi)"
  using assms by (cases x) (auto simp: num_le_def num_lt_def py_min_def py_max_def)

lemma positive_radius_passes: "num_lt (PyInt 0) r \<Longrightarrow> \<not> num_le r (PyInt 0)"
  by (cases "to_float r") (auto simp: num_le_def num_lt_def)

lemmas run_defs =
  process_file_def process_line_def initial_state_def default_config_def py_split_def
  py_pos_def newline_def file_lines_def spec_strip_line_ending_def Let_def

lemmas fuzz_defs = fuzz_coordinate_def pre_clamp_def num_le_def num_lt_def py_min_def py_max_def

lemma py_pos_bound: "py_pos n i = Some k \<Longrightarrow> k < n"
  by (auto simp: py_pos_def split: if_splits)

lemma is_space_newline: "is_space (CHR 0x0A)"
  by (simp add: is_space_def code_point_def)

lemma dropWhile_keeps: "xs \<noteq> [] \<Longrightarrow> \<not> P (hd xs) \<Longrightarrow> dropWhile P xs = xs"
  by (cases xs) auto

lemma py_strip_verbatim:
  assumes "body \<noteq> []" and "\<not> is_space (hd body)" and "\<not> is_space (last body)"
  shows "py_strip (body @ newline) = body" and "py_strip body = body"
proof -
  have front: "dropWhile is_space (body @ newline) = body @ newline"
    using assms(1,2) by (intro dropWhile_keeps) auto
  have rear: "dropWhile is_space (rev body) = rev body"
    using assms(1,3) by (intro dropWhile_keeps) (auto simp: hd_rev)
  have "dropWhile is_space (rev (body @ newline)) = rev body"
    by (simp add: newline_def is_space_newline rear)
  then show "py_strip (body @ newline) = body"
    by (simp add: py_strip_def front)
  have "dropWhile is_space body = body"
    using assms(1,2) by (intro dropWhile_keeps) auto
  then show "py_strip body = body"
    by (simp add: py_strip_def rear)
qed

lemma process_line_header_irrelevant:
  "process_line (cfg\<lparr>header := b\<rparr>) str_of rnd n raw st = process_line cfg str_of rnd n raw st"
  by (simp add: process_line_def Let_def cong: option.case_cong sum.case_cong if_cong)

lemma process_lines_header_irrelevant:
  "process_lines (cfg\<lparr>header := b\<rparr>) str_of rnd ls st = process_lines cfg str_of rnd ls st"
  by (induction ls arbitrary: st)
    (auto simp: process_line_header_irrelevant split: prod.splits option.splits)

lemma process_line_outcomes:
  assumes "process_line cfg str_of rnd n raw st = (x, st')"
  shows "(py_strip raw = [] \<and> x = None \<and> st' = st)
       \<or> (py_strip raw \<noteq> [] \<and> x = Some IndexError \<and> st' = st)
       \<or> (py_strip raw \<noteq> [] \<and> x = None \<and> (\<exists>body. written st' = written st @ [body @ newline]))"
  using assms unfolding process_line_def Let_def
  by (auto split: if_splits option.splits sum.splits prod.splits)

lemma process_lines_written:
  assumes "process_lines cfg str_of rnd ls st = (x, st')" and "x \<noteq> Some IndexError"
  shows "\<exists>ws. written st' = written st @ ws
           \<and> length ws = length (filter (\<lambda>p. py_strip (snd p) \<noteq> []) ls)
           \<and> (\<forall>w \<in> set ws. \<exists>body. w = body @ newline)"
  using assms
proof (induction ls arbitrary: st)
  case Nil
  then show ?case by simp
next
  case (Cons p ls)
  obtain n raw where p: "p = (n, raw)" by (cases p)
  obtain y st1 where step: "process_line cfg str_of rnd n raw st = (y, st1)"
    by (cases "process_line cfg str_of rnd n raw st")
  show ?case
  proof (cases y)
    case None
    with Cons.prems p step have rest: "process_lines cfg str_of rnd ls st1 = (x, st')"
      by simp
    from Cons.IH [OF rest Cons.prems(2)] obtain ws where ws:
      "written st' = written st1 @ ws"
      "length ws = length (filter (\<lambda>p. py_strip (snd p) \<noteq> []) ls)"
      "\<forall>w \<in> set ws. \<exists>body. w = body @ newline"
      by blast
    from process_line_outcomes [OF step] None
    consider "py_strip raw = []" "st1 = st"
      | body where "py_strip raw \<noteq> []" "written st1 = written st @ [body @ newline]"
      by auto
    then show ?thesis
    proof cases
      case 1
      with ws p show ?thesis by auto
    next
      case 2
      with ws p show ?thesis
        by (intro exI [of _ "(body @ newline) # ws"]) auto
    qed
  next
    case (Some e)
    with Cons.prems p step have "x = Some e" by simp
    moreover from process_line_outcomes [OF step] Some have "e = IndexError" by auto
    ultimately show ?thesis using Cons.prems(2) by simp
  qed
qed

lemma nonblank_enumerate:
  "length (filter (\<lambda>p. py_strip (snd p) \<noteq> []) (enumerate k ls))
     = length (filter (\<lambda>l. py_strip l \<noteq> []) ls)"
  by (induction ls arbitrary: k) auto

lemma process_line_nonneg_columns:
  assumes "0 \<le> lat_col cfg" and "0 \<le> lon_col cfg"
  shows "fst (process_line cfg str_of rnd n raw st) \<noteq> Some IndexError"
  using assms unfolding process_line_def Let_def
  by (auto simp: py_pos_def split: option.splits sum.splits prod.splits)

lemma process_lines_nonneg_columns:
  assumes "0 \<le> lat_col cfg" and "0 \<le> lon_col cfg"
  shows "fst (process_lines cfg str_of rnd ls st) \<noteq> Some IndexError"
proof (induction ls arbitrary: st)
  case Nil
  then show ?case by simp
next
  case (Cons p ls)
  obtain n raw where p: "p = (n, raw)" by (cases p)
  obtain y st1 where step: "process_line cfg str_of rnd n raw st = (y, st1)"
    by (cases "process_line cfg str_of rnd n raw st")
  from process_line_nonneg_columns [OF assms, of str_of rnd n raw st] step
  have "y \<noteq> Some IndexError" by simp
  moreover from process_line_outcomes [OF step] have "y = None \<or> y = Some IndexError" by auto
  ultimately have "y = None" by simp
  with p step Cons.IH [of st1] show ?case by simp
qed

lemma process_file_nonneg_columns:
  assumes "0 \<le> lat_col cfg" and "0 \<le> lon_col cfg"
  shows "fst (process_file cfg str_of rnd infile) \<noteq> Some IndexError"
proof (cases "header cfg \<and> infile = []")
  case True
  then show ?thesis
    by (simp add: process_file_def)
next
  case False
  define ls where "ls = (if header cfg then tl infile else infile)"
  obtain x st where run: "process_lines cfg str_of rnd (enumerate 1 ls) initial_state = (x, st)"
    by (cases "process_lines cfg str_of rnd (enumerate 1 ls) initial_state")
  have "fst (process_file cfg str_of rnd infile) = x"
    using False run unfolding process_file_def ls_def
    by (cases infile; cases x) auto
  moreover have "x \<noteq> Some IndexError"
    using process_lines_nonneg_columns [OF assms, of str_of rnd "enumerate 1 ls" initial_state] run
    by simp
  ultimately show ?thesis by simp
qed

lemma process_file_written:
  assumes "fst (process_file cfg str_of rnd infile) \<noteq> Some IndexError"
  shows "length (written (snd (process_file cfg str_of rnd infile)))
           = length (filter (\<lambda>l. py_strip l \<noteq> []) (if header cfg then tl infile else infile))
       \<and> (\<forall>w \<in> set (written (snd (process_file cfg str_of rnd infile))). \<exists>body. w = body @ newline)"
proof (cases "header cfg \<and> infile = []")
  case True
  then show ?thesis
    by (simp add: process_file_def initial_state_def)
next
  case False
  define ls where "ls = (if header cfg then tl infile else infile)"
  obtain x st where run: "process_lines cfg str_of rnd (enumerate 1 ls) initial_state = (x, st)"
    by (cases "process_lines cfg str_of rnd (enumerate 1 ls) initial_state")
  have pf: "process_file cfg str_of rnd infile
              = (case x of Some e \<Rightarrow> (Some e, st\<lparr>log := log st @ [Unexpected e]\<rparr>) | None \<Rightarrow> (None, st))"
    using False run unfolding process_file_def ls_def
    by (cases infile) (auto split: option.splits)
  have x: "x \<noteq> Some IndexError"
    using assms pf by (cases x) auto
  have w: "written (snd (process_file cfg str_of rnd infile)) = written st"
    using pf by (cases x) auto
  from process_lines_written [OF run x] obtain ws where
    "written st = written initial_state @ ws"
    "length ws = length (filter (\<lambda>p. py_strip (snd p) \<noteq> []) (enumerate 1 ls))"
    "\<forall>w \<in> set ws. \<exists>body. w = body @ newline"
    by blast
  then show ?thesis
    unfolding w ls_def [symmetric] by (simp add: initial_state_def nonblank_enumerate)
qed

lemma fuzz_at_zero_draws:
  "fuzz_coordinate 0 0 (PyStr ''1'') (PyStr ''2'') (PyInt 1) = Inr (PyFloat (Fin 1), PyFloat (Fin 2))"
proof -
  have "py_float_str ''1'' = Some (Fin 1)" and "py_float_str ''2'' = Some (Fin 2)"
    by (simp_all add: float_parse_defs)
  then show ?thesis
    by (simp add: fuzz_defs)
qed

text \<open>
  The loop body on a non-blank line with too few fields, and on one that the fuzzer
  rejects: the line written is the stripped line, so it is the original line only when
  that has no whitespace around its content.
\<close>

lemma process_line_insufficient_columns:
  assumes "py_strip raw \<noteq> []"
    and "py_split (py_strip raw) (delimiter cfg) = Some parts"
    and "int (length parts) \<le> max (lat_col cfg) (lon_col cfg)"
  shows "process_line cfg str_of rnd n raw st
           = (None, st\<lparr>written := written st @ [py_strip raw @ newline],
                       log := log st @ [NotEnoughColumns n (length parts)]\<rparr>)"
  using assms by (simp add: process_line_def Let_def)

lemma process_line_fuzzer_failure:
  assumes "py_strip raw \<noteq> []"
    and "py_split (py_strip raw) (delimiter cfg) = Some parts"
    and "\<not> int (length parts) \<le> max (lat_col cfg) (lon_col cfg)"
    and "py_pos (length parts) (lat_col cfg) = Some i"
    and "py_pos (length parts) (lon_col cfg) = Some j"
    and "fuzz_coordinate (rnd (draws st)) (rnd (draws st + 1))
           (PyStr (parts ! i)) (PyStr (parts ! j)) (radius cfg) = Inl e"
  shows "process_line cfg str_of rnd n raw st
           = (None, st\<lparr>written := written st @ [py_strip raw @ newline],
                       log := log st
                         @ (if e = NotNumeric
                            then [invalid_coordinate (PyStr (parts ! i)) (PyStr (parts ! j))]
                            else [])
                         @ [LineError n (FuzzError e)]\<rparr>)"
  using assms by (simp add: process_line_def Let_def)

lemma invalid_coordinate_after_latitude:
  "invalid_coordinate (PyStr ''40'') (PyStr ''abc'')
     = InvalidCoordinate (PyNum (PyFloat (Fin 40))) (PyStr ''abc'')"
proof -
  have "py_float_str ''40'' = Some (Fin 40)"
    by (simp add: float_parse_defs)
  then show ?thesis
    by (simp add: invalid_coordinate_def)
qed

section \<open>The coordinate fuzzer\<close>

text \<open>
  C1. For a latitude in \<open>[-90, 90]\<close>, a longitude in \<open>[-180, 180]\<close>, a radius greater
  than zero (infinity included) and any two draws, \<open>fuzz_coordinate\<close> returns a pair whose
  first component lies in \<open>[-90, 90]\<close> and whose second lies in \<open>[-180, 180]\<close>.
\<close>

theorem fuzz_coordinate_in_bounds:
  assumes "py_float latitude = Some (Fin a)" and "- 90 \<le> a" and "a \<le> 90"
    and "py_float longitude = Some (Fin b)" and "- 180 \<le> b" and "b \<le> 180"
    and "num_lt (PyInt 0) rad"
    and "0 \<le> u1" and "u1 < 1" and "0 \<le> u2" and "u2 < 1"
  shows "\<exists>nlat nlon. fuzz_coordinate u1 u2 latitude longitude rad = Inr (nlat, nlon)
           \<and> num_le (PyInt (- 90)) nlat \<and> num_le nlat (PyInt 90)
           \<and> num_le (PyInt (- 180)) nlon \<and> num_le nlon (PyInt 180)"
proof -
  obtain x y where pc: "pre_clamp u1 u2 (Fin a) (Fin b) rad = (x, y)"
    by (cases "pre_clamp u1 u2 (Fin a) (Fin b) rad")
  have r: "\<not> num_le rad (PyInt 0)"
    using assms(7) by (rule positive_radius_passes)
  have lat_ok: "num_le (PyInt (- 90)) (PyFloat (Fin a)) \<and> num_le (PyFloat (Fin a)) (PyInt 90)"
    using assms(2,3) by (simp add: num_le_def)
  have lon_ok: "num_le (PyInt (- 180)) (PyFloat (Fin b)) \<and> num_le (PyFloat (Fin b)) (PyInt 180)"
    using assms(5,6) by (simp add: num_le_def)
  have "fuzz_coordinate u1 u2 latitude longitude rad =
          Inr (py_max (PyInt (- 90)) (py_min (PyInt 90) (PyFloat x)),
               py_max (PyInt (- 180)) (py_min (PyInt 180) (PyFloat y)))"
    unfolding fuzz_coordinate_def using assms(1,4) r lat_ok lon_ok pc by simp
  moreover have "num_le (PyInt (- 90)) (py_max (PyInt (- 90)) (py_min (PyInt 90) (PyFloat x)))
       \<and> num_le (py_max (PyInt (- 90)) (py_min (PyInt 90) (PyFloat x))) (PyInt 90)"
    by (rule clamp_bounds) simp
  moreover have "num_le (PyInt (- 180)) (py_max (PyInt (- 180)) (py_min (PyInt 180) (PyFloat y)))
       \<and> num_le (py_max (PyInt (- 180)) (py_min (PyInt 180) (PyFloat y))) (PyInt 180)"
    by (rule clamp_bounds) simp
  ultimately show ?thesis by simp
qed

theorem fuzz_coordinate_in_bounds_witness:
  "\<exists>nlat nlon. fuzz_coordinate 0 0 (PyStr ''89.5'') (PyStr ''-180'') (PyFloat PInf) = Inr (nlat, nlon)
           \<and> num_le (PyInt (- 90)) nlat \<and> num_le nlat (PyInt 90)
           \<and> num_le (PyInt (- 180)) nlon \<and> num_le nlon (PyInt 180)"
proof -
  have 1: "py_float (PyStr ''89.5'') = Some (Fin (179 / 2))"
    by (simp add: float_parse_defs)
  have 2: "py_float (PyStr ''-180'') = Some (Fin (- 180))"
    by (simp add: float_parse_defs)
  have 3: "num_lt (PyInt 0) (PyFloat PInf)"
    by (simp add: num_lt_def)
  show ?thesis
    using fuzz_coordinate_in_bounds [OF 1 _ _ 2 _ _ 3, of 0 0] by simp
qed

text \<open>
  C3. The four rejected calls of the specification: each returns the error named, and so
  no pair.
\<close>

theorem fuzz_coordinate_rejects:
  "fuzz_coordinate u1 u2 (PyNum (PyInt 91)) (PyNum (PyInt 0)) (PyFloat (Fin (1 / 100))) = Inl LatitudeRange
 \<and> fuzz_coordinate u1 u2 (PyNum (PyInt 0)) (PyNum (PyInt 181)) (PyFloat (Fin (1 / 100))) = Inl LongitudeRange
 \<and> fuzz_coordinate u1 u2 (PyStr ''abc'') (PyNum (PyInt 0)) (PyFloat (Fin (1 / 100))) = Inl NotNumeric
 \<and> fuzz_coordinate u1 u2 (PyNum (PyInt 0)) (PyNum (PyInt 0)) (PyInt 0) = Inl RadiusNotPositive"
proof -
  have "py_float (PyStr ''abc'') = None"
    by (simp add: float_parse_defs)
  then show ?thesis
    by (simp add: fuzz_coordinate_def num_le_def)
qed

text \<open>
  C4, as amended. An input that \<open>float\<close> cannot parse is rejected as not numeric. An input
  that parses to an infinity or to NaN is not: it fails the range check of its
  coordinate, since no comparison with it holds.
\<close>

theorem fuzz_coordinate_unparsed_or_non_finite:
  "(py_float latitude = None \<or> py_float longitude = None
      \<longrightarrow> fuzz_coordinate u1 u2 latitude longitude rad = Inl NotNumeric)
 \<and> (\<forall>x y. py_float latitude = Some x \<and> \<not> is_finite x \<and> py_float longitude = Some y
      \<longrightarrow> fuzz_coordinate u1 u2 latitude longitude rad = Inl LatitudeRange)
 \<and> (\<forall>a y. py_float latitude = Some (Fin a) \<and> - 90 \<le> a \<and> a \<le> 90
         \<and> py_float longitude = Some y \<and> \<not> is_finite y
      \<longrightarrow> fuzz_coordinate u1 u2 latitude longitude rad = Inl LongitudeRange)"
proof (intro conjI allI impI)
  assume "py_float latitude = None \<or> py_float longitude = None"
  then show "fuzz_coordinate u1 u2 latitude longitude rad = Inl NotNumeric"
    by (auto simp: fuzz_coordinate_def split: option.splits)
next
  fix x y
  assume "py_float latitude = Some x \<and> \<not> is_finite x \<and> py_float longitude = Some y"
  then show "fuzz_coordinate u1 u2 latitude longitude rad = Inl LatitudeRange"
    by (cases x) (auto simp: fuzz_coordinate_def num_le_def is_finite_def)
next
  fix a y
  assume "py_float latitude = Some (Fin a) \<and> - 90 \<le> a \<and> a \<le> 90
         \<and> py_float longitude = Some y \<and> \<not> is_finite y"
  then show "fuzz_coordinate u1 u2 latitude longitude rad = Inl LongitudeRange"
    by (cases y) (auto simp: fuzz_coordinate_def num_le_def is_finite_def)
qed

theorem fuzz_coordinate_unparsed_or_non_finite_witness:
  "fuzz_coordinate 0 0 (PyStr ''1.2.3'') (PyStr ''0'') (PyInt 1) = Inl NotNumeric
 \<and> fuzz_coordinate 0 0 (PyStr ''-Infinity'') (PyStr ''0'') (PyInt 1) = Inl LatitudeRange
 \<and> fuzz_coordinate 0 0 (PyStr ''12'') (PyStr ''NaN'') (PyInt 1) = Inl LongitudeRange"
proof -
  have 1: "py_float (PyStr ''1.2.3'') = None"
    by (simp add: float_parse_defs)
  have 2: "py_float (PyStr ''-Infinity'') = Some NInf"
    by (simp add: float_parse_defs)
  have 3: "py_float (PyStr ''0'') = Some (Fin 0)"
    by (simp add: float_parse_defs)
  have 4: "py_float (PyStr ''12'') = Some (Fin 12)"
    by (simp add: float_parse_defs)
  have 5: "py_float (PyStr ''NaN'') = Some NaN"
    by (simp add: float_parse_defs)
  show ?thesis
    using fuzz_coordinate_unparsed_or_non_finite [of "PyStr ''1.2.3''" "PyStr ''0''" 0 0 "PyInt 1"]
      fuzz_coordinate_unparsed_or_non_finite [of "PyStr ''-Infinity''" "PyStr ''0''" 0 0 "PyInt 1"]
      fuzz_coordinate_unparsed_or_non_finite [of "PyStr ''12''" "PyStr ''NaN''" 0 0 "PyInt 1"]
    using 1 2 3 4 5 by (simp add: is_finite_def)
qed

text \<open>
  C4 as stated fails: \<^verbatim>\<open>"inf"\<close> and \<^verbatim>\<open>"nan"\<close> parse, and the call ends in a range error.
\<close>

theorem non_finite_not_reported_as_non_numeric:
  "py_float (PyStr ''inf'') = Some PInf
 \<and> fuzz_coordinate 0 0 (PyStr ''inf'') (PyNum (PyInt 0)) (PyFloat (Fin (1 / 100))) = Inl LatitudeRange
 \<and> py_float (PyStr ''nan'') = Some NaN
 \<and> fuzz_coordinate 0 0 (PyNum (PyInt 0)) (PyStr ''nan'') (PyFloat (Fin (1 / 100))) = Inl LongitudeRange"
proof -
  have 1: "py_float (PyStr ''inf'') = Some PInf"
    by (simp add: float_parse_defs)
  have 2: "py_float (PyStr ''nan'') = Some NaN"
    by (simp add: float_parse_defs)
  show ?thesis
    using 1 2 by (simp add: fuzz_coordinate_def num_le_def)
qed

section \<open>The line transformer\<close>

text \<open>
  C5 fails on the code. With the default columns the line \<^verbatim>\<open>" 40.0"\<close> has too few fields;
  the warning is recorded and the run goes on, but the line written is \<^verbatim>\<open>"40.0"\<close>: the
  leading blank of the original line is lost, against the claim and against the comment
  of line 114. The line \<^verbatim>\<open>"40.0"\<close> of the specification is written as it is.
\<close>

theorem insufficient_columns_not_verbatim:
  "process_file default_config (\<lambda>_. ''x'') (\<lambda>_. 0) ['' 40.0\<newline>'']
     = (None, \<lparr>written = [''40.0\<newline>''], log = [NotEnoughColumns 1 1], draws = 0\<rparr>)
 \<and> spec_strip_line_ending '' 40.0\<newline>'' = '' 40.0''
 \<and> process_file default_config (\<lambda>_. ''x'') (\<lambda>_. 0) [''40.0\<newline>'']
     = (None, \<lparr>written = [''40.0\<newline>''], log = [NotEnoughColumns 1 1], draws = 0\<rparr>)"
  by (simp add: run_defs py_strip_def is_space_def code_point_def)

text \<open>
  C6 fails on the code. The fuzzer rejects the line \<^verbatim>\<open>" abc,0"\<close>; both errors are recorded
  and the run goes on without an exception, but the line written is \<^verbatim>\<open>"abc,0"\<close>: the
  leading blank of the original line is lost, against the claim and against the comment
  of line 128.
\<close>

theorem fuzzer_failure_not_verbatim:
  "process_file default_config (\<lambda>_. ''x'') (\<lambda>_. 0) ['' abc,0\<newline>'']
     = (None, \<lparr>written = [''abc,0\<newline>''],
               log = [InvalidCoordinate (PyStr ''abc'') (PyStr ''0''),
                      LineError 1 (FuzzError NotNumeric)],
               draws = 0\<rparr>)
 \<and> spec_strip_line_ending '' abc,0\<newline>'' = '' abc,0''"
proof -
  have "py_float_str ''abc'' = None"
    by (simp add: float_parse_defs)
  then show ?thesis
    by (simp add: run_defs py_strip_def is_space_def code_point_def fuzz_coordinate_def
        invalid_coordinate_def)
qed

text \<open>
  C7. With the header flag set, the run on a file is the run without the flag on the
  file's lines after the first: the same output, log (line numbers included) and draws.
  The input of the specification, with the default columns, gives one output line.
\<close>

theorem header_line_discarded:
  "(header cfg \<longrightarrow>
      process_file cfg str_of rnd (h # rest) = process_file (cfg\<lparr>header := False\<rparr>) str_of rnd rest)
 \<and> length (written (snd (process_file (default_config\<lparr>radius := rad, header := True\<rparr>) str_of rnd
             (file_lines ''lat,lon\<newline>40.0,-70.0\<newline>'')))) = 1"
proof
  show "header cfg \<longrightarrow>
      process_file cfg str_of rnd (h # rest) = process_file (cfg\<lparr>header := False\<rparr>) str_of rnd rest"
    by (simp add: process_file_def process_lines_header_irrelevant)
next
  let ?cfg = "default_config\<lparr>radius := rad, header := True\<rparr>"
  have lines: "file_lines ''lat,lon\<newline>40.0,-70.0\<newline>'' = [''lat,lon\<newline>'', ''40.0,-70.0\<newline>'']"
    by (simp add: file_lines_def)
  have cols: "0 \<le> lat_col ?cfg" "0 \<le> lon_col ?cfg"
    by (simp_all add: default_config_def)
  have data: "py_strip ''40.0,-70.0\<newline>'' \<noteq> []"
    by (simp add: py_strip_def is_space_def code_point_def)
  have "length (written (snd (process_file ?cfg str_of rnd [''lat,lon\<newline>'', ''40.0,-70.0\<newline>''])))
          = length (filter (\<lambda>l. py_strip l \<noteq> [])
              (if header ?cfg then tl [''lat,lon\<newline>'', ''40.0,-70.0\<newline>'']
               else [''lat,lon\<newline>'', ''40.0,-70.0\<newline>'']))"
    using process_file_written [OF process_file_nonneg_columns [OF cols]] by blast
  also have "\<dots> = 1"
    using data by simp
  finally show "length (written (snd (process_file ?cfg str_of rnd
                   (file_lines ''lat,lon\<newline>40.0,-70.0\<newline>'')))) = 1"
    by (simp only: lines)
qed

theorem header_line_discarded_witness:
  "process_file (default_config\<lparr>header := True\<rparr>) (\<lambda>_. ''x'') (\<lambda>_. 0)
       [''lat,lon\<newline>'', ''40.0,-70.0\<newline>'']
     = process_file (default_config\<lparr>header := True, header := False\<rparr>) (\<lambda>_. ''x'') (\<lambda>_. 0)
         [''40.0,-70.0\<newline>'']
 \<and> length (written (snd (process_file (default_config\<lparr>radius := PyInt 1, header := True\<rparr>)
       (\<lambda>_. ''x'') (\<lambda>_. 0) (file_lines ''lat,lon\<newline>40.0,-70.0\<newline>'')))) = 1"
  using header_line_discarded [of "default_config\<lparr>header := True\<rparr>" "\<lambda>_. ''x''" "\<lambda>_. 0"
      "''lat,lon\<newline>''" "[''40.0,-70.0\<newline>'']" "PyInt 1"]
  by simp

text \<open>
  C8, as amended. Unless an \<^verbatim>\<open>IndexError\<close> ends the run (none does when both column
  indices are non-negative), the output has one line for each input line after the
  header skip that is not blank, where a line is blank when nothing is left of it after
  removing leading and trailing whitespace; every string written ends with a newline.
\<close>

theorem one_output_line_per_nonblank_line:
  assumes "(0 \<le> lat_col cfg \<and> 0 \<le> lon_col cfg)
         \<or> fst (process_file cfg str_of rnd infile) \<noteq> Some IndexError"
  shows "length (written (snd (process_file cfg str_of rnd infile)))
           = length (filter (\<lambda>l. py_strip l \<noteq> []) (if header cfg then tl infile else infile))
       \<and> (\<forall>w \<in> set (written (snd (process_file cfg str_of rnd infile))). \<exists>body. w = body @ newline)"
proof -
  have "fst (process_file cfg str_of rnd infile) \<noteq> Some IndexError"
    using assms process_file_nonneg_columns by blast
  then show ?thesis
    by (rule process_file_written)
qed

theorem one_output_line_per_nonblank_line_witness:
  "length (written (snd (process_file default_config (\<lambda>_. ''x'') (\<lambda>_. 0)
       [''a\<newline>'', ''\<newline>'', '' \<newline>'', ''1,2''])))
     = length (filter (\<lambda>l. py_strip l \<noteq> []) [''a\<newline>'', ''\<newline>'', '' \<newline>'', ''1,2''])
 \<and> length (filter (\<lambda>l. py_strip l \<noteq> []) [''a\<newline>'', ''\<newline>'', '' \<newline>'', ''1,2'']) = 2"
proof -
  have "0 \<le> lat_col default_config \<and> 0 \<le> lon_col default_config"
    by (simp add: default_config_def)
  then have "(0 \<le> lat_col default_config \<and> 0 \<le> lon_col default_config)
         \<or> fst (process_file default_config (\<lambda>_. ''x'') (\<lambda>_. 0)
                  [''a\<newline>'', ''\<newline>'', '' \<newline>'', ''1,2'']) \<noteq> Some IndexError"
    by (rule disjI1)
  from one_output_line_per_nonblank_line [OF this]
  have "length (written (snd (process_file default_config (\<lambda>_. ''x'') (\<lambda>_. 0)
       [''a\<newline>'', ''\<newline>'', '' \<newline>'', ''1,2''])))
     = length (filter (\<lambda>l. py_strip l \<noteq> []) [''a\<newline>'', ''\<newline>'', '' \<newline>'', ''1,2''])"
    by (simp add: default_config_def)
  moreover have "length (filter (\<lambda>l. py_strip l \<noteq> []) [''a\<newline>'', ''\<newline>'', '' \<newline>'', ''1,2'']) = 2"
    by (simp add: py_strip_def is_space_def code_point_def)
  ultimately show ?thesis by blast
qed

text \<open>
  C8 as stated fails: a line of one space is not empty once its line ending is removed,
  and nothing is written for it.
\<close>

theorem whitespace_line_dropped:
  "process_file default_config (\<lambda>_. ''x'') (\<lambda>_. 0) ['' \<newline>'']
     = (None, \<lparr>written = [], log = [], draws = 0\<rparr>)
 \<and> spec_strip_line_ending '' \<newline>'' = '' ''"
  by (simp add: run_defs py_strip_def is_space_def code_point_def)

text \<open>
  C9, as amended. On success the line written is the join, with the same delimiter and a
  newline, of the fields of the line stripped of leading and trailing whitespace, where
  the longitude field holds the rendering of the new longitude, the latitude field (when
  it is another field) that of the new latitude, and every other field is unchanged; the
  number of fields is the same.
\<close>

theorem fuzzed_line_fields:
  assumes "py_strip raw \<noteq> []"
    and "py_split (py_strip raw) (delimiter cfg) = Some parts"
    and "\<not> int (length parts) \<le> max (lat_col cfg) (lon_col cfg)"
    and "py_pos (length parts) (lat_col cfg) = Some i"
    and "py_pos (length parts) (lon_col cfg) = Some j"
    and "fuzz_coordinate (rnd (draws st)) (rnd (draws st + 1))
           (PyStr (parts ! i)) (PyStr (parts ! j)) (radius cfg) = Inr (nlat, nlon)"
  shows "\<exists>parts'. process_line cfg str_of rnd n raw st
             = (None, st\<lparr>written := written st @ [py_join (delimiter cfg) parts' @ newline],
                         draws := draws st + 2\<rparr>)
           \<and> length parts' = length parts
           \<and> (\<forall>k < length parts. k \<noteq> i \<longrightarrow> k \<noteq> j \<longrightarrow> parts' ! k = parts ! k)
           \<and> parts' ! j = str_of nlon
           \<and> (i \<noteq> j \<longrightarrow> parts' ! i = str_of nlat)"
proof -
  let ?parts' = "(parts[i := str_of nlat])[j := str_of nlon]"
  have i: "i < length parts" and j: "j < length parts"
    using assms(4,5) by (auto dest: py_pos_bound)
  have "process_line cfg str_of rnd n raw st
          = (None, st\<lparr>written := written st @ [py_join (delimiter cfg) ?parts' @ newline],
                      draws := draws st + 2\<rparr>)"
    using assms by (simp add: process_line_def Let_def)
  moreover have "length ?parts' = length parts"
    by simp
  moreover have "\<forall>k < length parts. k \<noteq> i \<longrightarrow> k \<noteq> j \<longrightarrow> ?parts' ! k = parts ! k"
    by simp
  moreover have "?parts' ! j = str_of nlon"
    using j by simp
  moreover have "i \<noteq> j \<longrightarrow> ?parts' ! i = str_of nlat"
    using i by simp
  ultimately show ?thesis by blast
qed

theorem fuzzed_line_fields_witness:
  "\<exists>parts'. process_line columns_1_2 show_coordinate (\<lambda>_. 0) 1 ''a,1,2,b\<newline>'' initial_state
             = (None, \<lparr>written = [py_join '','' parts' @ ''\<newline>''], log = [], draws = 2\<rparr>)
           \<and> length parts' = 4
           \<and> parts' ! 0 = ''a'' \<and> parts' ! 3 = ''b''
           \<and> parts' ! 2 = ''LON'' \<and> parts' ! 1 = ''LAT''"
proof -
  have 1: "py_strip ''a,1,2,b\<newline>'' = ''a,1,2,b''"
    by (simp add: py_strip_def is_space_def code_point_def)
  have 2: "py_split (py_strip ''a,1,2,b\<newline>'') (delimiter columns_1_2) = Some [''a'', ''1'', ''2'', ''b'']"
    by (simp add: 1 py_split_def columns_1_2_def default_config_def)
  have 3: "\<not> int (length [''a'', ''1'', ''2'', ''b'']) \<le> max (lat_col columns_1_2) (lon_col columns_1_2)"
    by (simp add: columns_1_2_def)
  have 4: "py_pos (length [''a'', ''1'', ''2'', ''b'']) (lat_col columns_1_2) = Some 1"
    by (simp add: py_pos_def columns_1_2_def)
  have 5: "py_pos (length [''a'', ''1'', ''2'', ''b'']) (lon_col columns_1_2) = Some 2"
    by (simp add: py_pos_def columns_1_2_def)
  have 6: "fuzz_coordinate 0 0 (PyStr ([''a'', ''1'', ''2'', ''b''] ! 1))
             (PyStr ([''a'', ''1'', ''2'', ''b''] ! 2)) (radius columns_1_2)
           = Inr (PyFloat (Fin 1), PyFloat (Fin 2))"
    using fuzz_at_zero_draws by (simp add: columns_1_2_def)
  from fuzzed_line_fields [of "''a,1,2,b\<newline>''" columns_1_2 "[''a'', ''1'', ''2'', ''b'']" 1 2
        "\<lambda>_. 0" initial_state "PyFloat (Fin 1)" "PyFloat (Fin 2)" show_coordinate 1, OF _ 2 3 4 5 6]
  obtain parts' where p:
    "process_line columns_1_2 show_coordinate (\<lambda>_. 0) 1 ''a,1,2,b\<newline>'' initial_state
       = (None, initial_state\<lparr>written := written initial_state
                 @ [py_join (delimiter columns_1_2) parts' @ newline],
               draws := draws initial_state + 2\<rparr>)"
    "length parts' = length [''a'', ''1'', ''2'', ''b'']"
    "\<forall>k < length [''a'', ''1'', ''2'', ''b'']. k \<noteq> 1 \<longrightarrow> k \<noteq> 2 \<longrightarrow> parts' ! k = [''a'', ''1'', ''2'', ''b''] ! k"
    "parts' ! 2 = show_coordinate (PyFloat (Fin 2))"
    "(1::nat) \<noteq> 2 \<longrightarrow> parts' ! 1 = show_coordinate (PyFloat (Fin 1))"
    using 1 by auto
  from p(3) have "parts' ! 0 = ''a''" and "parts' ! 3 = ''b''"
    by simp_all
  with p(1,2,4,5) show ?thesis
    by (intro exI [of _ parts'])
      (simp add: initial_state_def newline_def columns_1_2_def default_config_def show_coordinate_def)
qed

text \<open>
  C9 as stated fails: the first field of \<^verbatim>\<open>" a,1,2"\<close> is \<^verbatim>\<open>" a"\<close>, and the line written
  starts with \<^verbatim>\<open>"a"\<close>.
\<close>

theorem outer_field_whitespace_lost:
  "py_split (spec_strip_line_ending '' a,1,2\<newline>'') '','' = Some ['' a'', ''1'', ''2'']
 \<and> process_line columns_1_2 show_coordinate (\<lambda>_. 0) 1 '' a,1,2\<newline>'' initial_state
     = (None, \<lparr>written = [''a,LAT,LON\<newline>''], log = [], draws = 2\<rparr>)"
proof -
  have 1: "py_strip '' a,1,2\<newline>'' = ''a,1,2''"
    by (simp add: py_strip_def is_space_def code_point_def)
  have 2: "py_split ''a,1,2'' '','' = Some [''a'', ''1'', ''2'']"
    by (simp add: py_split_def)
  have 3: "py_split (spec_strip_line_ending '' a,1,2\<newline>'') '','' = Some ['' a'', ''1'', ''2'']"
    by (simp add: py_split_def spec_strip_line_ending_def)
  have "process_line columns_1_2 show_coordinate (\<lambda>_. 0) 1 '' a,1,2\<newline>'' initial_state
     = (None, \<lparr>written = [''a,LAT,LON\<newline>''], log = [], draws = 2\<rparr>)"
    using fuzz_at_zero_draws
    by (simp add: process_line_def 1 2 columns_1_2_def default_config_def py_pos_def
        initial_state_def newline_def show_coordinate_def)
  with 3 show ?thesis by blast
qed

text \<open>
  C10. With the header flag set and no input line, \<open>process_file\<close> raises
  \<^verbatim>\<open>StopIteration\<close>, nothing is written, and \<open>main\<close> exits with status 1.
\<close>

theorem empty_input_with_header_fails:
  assumes "header cfg"
  shows "process_file cfg str_of rnd []
           = (Some StopIteration, initial_state\<lparr>log := [Unexpected StopIteration]\<rparr>)
       \<and> fst (main cfg str_of rnd []) = 1"
  using assms by (simp add: process_file_def main_def initial_state_def)

theorem empty_input_with_header_fails_witness:
  "process_file (default_config\<lparr>header := True\<rparr>) (\<lambda>_. ''x'') (\<lambda>_. 0) []
           = (Some StopIteration, \<lparr>written = [], log = [Unexpected StopIteration], draws = 0\<rparr>)
       \<and> fst (main (default_config\<lparr>header := True\<rparr>) (\<lambda>_. ''x'') (\<lambda>_. 0) []) = 1"
  using empty_input_with_header_fails [of "default_config\<lparr>header := True\<rparr>" "\<lambda>_. ''x''" "\<lambda>_. 0"]
  by (simp add: initial_state_def)

end
